theory Spec2Isabelle
  imports Complex_Main "HOL-Library.Word" "HOL-Library.Multiset"
begin

unbundle bit_operations_syntax

section \<open>JavaScript numbers\<close>

text \<open>
  A JavaScript \<open>number\<close> is modelled as a real number, one of the two infinities, or NaN.
  Arithmetic on finite values is exact (the rounding of IEEE doubles is not modelled, and
  \<open>Math.PI\<close> is \<open>pi\<close>); the special values follow IEEE 754 as ECMAScript prescribes it.
  Negative zero is not distinguished from zero.
\<close>

datatype jsnum = NaN | NInf | Fin real | PInf

instantiation jsnum :: "{plus, minus, times, inverse, ord}"
begin

fun plus_jsnum :: "jsnum \<Rightarrow> jsnum \<Rightarrow> jsnum" where
  "plus_jsnum NaN _ = NaN"
| "plus_jsnum _ NaN = NaN"
| "plus_jsnum (Fin x) (Fin y) = Fin (x + y)"
| "plus_jsnum PInf NInf = NaN"
| "plus_jsnum NInf PInf = NaN"
| "plus_jsnum PInf _ = PInf"
| "plus_jsnum _ PInf = PInf"
| "plus_jsnum NInf _ = NInf"
| "plus_jsnum _ NInf = NInf"

fun minus_jsnum :: "jsnum \<Rightarrow> jsnum \<Rightarrow> jsnum" where
  "minus_jsnum NaN _ = NaN"
| "minus_jsnum _ NaN = NaN"
| "minus_jsnum (Fin x) (Fin y) = Fin (x - y)"
| "minus_jsnum PInf PInf = NaN"
| "minus_jsnum NInf NInf = NaN"
| "minus_jsnum PInf _ = PInf"
| "minus_jsnum _ PInf = NInf"
| "minus_jsnum NInf _ = NInf"
| "minus_jsnum _ NInf = PInf"

text \<open>The sign of an infinite product or quotient; an infinity times zero is NaN.\<close>

definition signed_inf :: "bool \<Rightarrow> jsnum" where
  "signed_inf positive = (if positive then PInf else NInf)"

fun times_jsnum :: "jsnum \<Rightarrow> jsnum \<Rightarrow> jsnum" where
  "times_jsnum NaN _ = NaN"
| "times_jsnum _ NaN = NaN"
| "times_jsnum (Fin x) (Fin y) = Fin (x * y)"
| "times_jsnum (Fin x) PInf = (if x = 0 then NaN else signed_inf (0 < x))"
| "times_jsnum (Fin x) NInf = (if x = 0 then NaN else signed_inf (x < 0))"
| "times_jsnum PInf (Fin y) = (if y = 0 then NaN else signed_inf (0 < y))"
| "times_jsnum NInf (Fin y) = (if y = 0 then NaN else signed_inf (y < 0))"
| "times_jsnum PInf PInf = PInf"
| "times_jsnum NInf NInf = PInf"
| "times_jsnum PInf NInf = NInf"
| "times_jsnum NInf PInf = NInf"

fun divide_jsnum :: "jsnum \<Rightarrow> jsnum \<Rightarrow> jsnum" where
  "divide_jsnum NaN _ = NaN"
| "divide_jsnum _ NaN = NaN"
| "divide_jsnum (Fin x) (Fin y) =
     (if y = 0 then (if x = 0 then NaN else signed_inf (0 < x)) else Fin (x / y))"
| "divide_jsnum (Fin x) _ = Fin 0"
| "divide_jsnum PInf (Fin y) = signed_inf (0 \<le> y)"
| "divide_jsnum NInf (Fin y) = signed_inf (y < 0)"
| "divide_jsnum _ _ = NaN"

fun inverse_jsnum :: "jsnum \<Rightarrow> jsnum" where
  "inverse_jsnum NaN = NaN"
| "inverse_jsnum (Fin y) = (if y = 0 then PInf else Fin (1 / y))"
| "inverse_jsnum _ = Fin 0"

text \<open>The relational operators \<open><\<close> and \<open><=\<close>: false as soon as an operand is NaN.\<close>

fun less_jsnum :: "jsnum \<Rightarrow> jsnum \<Rightarrow> bool" where
  "less_jsnum NaN _ = False"
| "less_jsnum _ NaN = False"
| "less_jsnum (Fin x) (Fin y) = (x < y)"
| "less_jsnum _ NInf = False"
| "less_jsnum NInf _ = True"
| "less_jsnum PInf _ = False"
| "less_jsnum _ PInf = True"

fun less_eq_jsnum :: "jsnum \<Rightarrow> jsnum \<Rightarrow> bool" where
  "less_eq_jsnum NaN _ = False"
| "less_eq_jsnum _ NaN = False"
| "less_eq_jsnum (Fin x) (Fin y) = (x \<le> y)"
| "less_eq_jsnum NInf _ = True"
| "less_eq_jsnum _ PInf = True"
| "less_eq_jsnum _ _ = False"

instance ..

end

text \<open>\<open>Math.sin\<close>, \<open>Math.cos\<close>, \<open>Math.sqrt\<close> and \<open>Math.atan2\<close>.\<close>

fun js_sin :: "jsnum \<Rightarrow> jsnum" where
  "js_sin (Fin x) = Fin (sin x)"
| "js_sin _ = NaN"

fun js_cos :: "jsnum \<Rightarrow> jsnum" where
  "js_cos (Fin x) = Fin (cos x)"
| "js_cos _ = NaN"

fun js_sqrt :: "jsnum \<Rightarrow> jsnum" where
  "js_sqrt (Fin x) = (if x < 0 then NaN else Fin (sqrt x))"
| "js_sqrt PInf = PInf"
| "js_sqrt _ = NaN"

definition atan2_real :: "real \<Rightarrow> real \<Rightarrow> real" where
  "atan2_real y x =
     (if 0 < x then arctan (y / x)
      else if x < 0 then (if 0 \<le> y then arctan (y / x) + pi else arctan (y / x) - pi)
      else if 0 < y then pi / 2
      else if y < 0 then - (pi / 2)
      else 0)"

fun js_atan2 :: "jsnum \<Rightarrow> jsnum \<Rightarrow> jsnum" where
  "js_atan2 NaN _ = NaN"
| "js_atan2 _ NaN = NaN"
| "js_atan2 (Fin y) (Fin x) = Fin (atan2_real y x)"
| "js_atan2 (Fin y) PInf = Fin 0"
| "js_atan2 (Fin y) NInf = Fin (if 0 \<le> y then pi else - pi)"
| "js_atan2 PInf (Fin x) = Fin (pi / 2)"
| "js_atan2 NInf (Fin x) = Fin (- (pi / 2))"
| "js_atan2 PInf PInf = Fin (pi / 4)"
| "js_atan2 PInf NInf = Fin (3 * pi / 4)"
| "js_atan2 NInf PInf = Fin (- (pi / 4))"
| "js_atan2 NInf NInf = Fin (- (3 * pi / 4))"

definition Math_PI :: jsnum where
  "Math_PI = Fin pi"

section \<open>Data model (types/index.ts)\<close>

datatype stop_status = pending | completed | skipped

record Location =
  latitude :: jsnum
  longitude :: jsnum

text \<open>A \<open>RouteStop\<close> has the two coordinate fields of a \<open>Location\<close> and its own metadata.\<close>

record RouteStop = Location +
  id' :: string
  routeId :: string
  clientId :: string
  clientName :: string
  clientSku :: string
  address :: string
  stopOrder :: jsnum
  optimizedOrder :: "jsnum option"
  status :: stop_status
  completedAt :: "string option"
  notes' :: "string option"

section \<open>Route optimizer (services/routeOptimizer.ts)\<close>

subsection \<open>Haversine distance in kilometres\<close>

definition calculateDistance :: "jsnum \<Rightarrow> jsnum \<Rightarrow> jsnum \<Rightarrow> jsnum \<Rightarrow> jsnum" where
  "calculateDistance lat1 lon1 lat2 lon2 =
     (let R = Fin 6371;
          dLat = (lat2 - lat1) * Math_PI / Fin 180;
          dLon = (lon2 - lon1) * Math_PI / Fin 180;
          a = js_sin (dLat / Fin 2) * js_sin (dLat / Fin 2) +
              js_cos (lat1 * Math_PI / Fin 180) * js_cos (lat2 * Math_PI / Fin 180) *
              js_sin (dLon / Fin 2) * js_sin (dLon / Fin 2);
          c = Fin 2 * js_atan2 (js_sqrt a) (js_sqrt (Fin 1 - a))
      in R * c)"




subsection \<open>Nearest-neighbour ordering\<close>

datatype js_error = TypeError

text \<open>
  The \<open>forEach\<close> scan of the pool: the callback updates the captured variables
  \<open>nearestIndex\<close> and \<open>nearestDistance\<close>, here the pair threaded through the scan.
\<close>

fun forEach_nearest :: "Location \<Rightarrow> RouteStop list \<Rightarrow> nat \<Rightarrow> nat \<times> jsnum \<Rightarrow> nat \<times> jsnum" where
  "forEach_nearest currentLocation [] index acc = acc"
| "forEach_nearest currentLocation (stop # rest) index (nearestIndex, nearestDistance) =
     (let distance = calculateDistance (latitude currentLocation) (longitude currentLocation)
                       (latitude stop) (longitude stop)
      in if distance < nearestDistance
         then forEach_nearest currentLocation rest (index + 1) (index, distance)
         else forEach_nearest currentLocation rest (index + 1) (nearestIndex, nearestDistance))"

text \<open>
  \<open>Array.prototype.splice(start, deleteCount)\<close> for a non-negative start: the array that
  remains and the array of removed elements.
\<close>

definition splice :: "nat \<Rightarrow> nat \<Rightarrow> 'a list \<Rightarrow> 'a list \<times> 'a list" where
  "splice start deleteCount xs =
     (take start xs @ drop (start + deleteCount) xs, take deleteCount (drop start xs))"

text \<open>
  The \<open>while (unvisited.length > 0)\<close> loop. Element 0 of an empty removed array is
  \<open>undefined\<close>, and reading \<open>nearest.latitude\<close> of it throws a TypeError. Not returning
  is the value \<open>None\<close>.
\<close>

partial_function (option) nearest_neighbour_loop ::
  "RouteStop list \<Rightarrow> RouteStop list \<Rightarrow> Location \<Rightarrow> (js_error + RouteStop list) option" where
  "nearest_neighbour_loop unvisited optimized currentLocation =
     (if length unvisited > 0 then
        (let (nearestIndex, nearestDistance) = forEach_nearest currentLocation unvisited 0 (0, PInf);
             (unvisited', removed) = splice nearestIndex 1 unvisited
         in case removed of
              [] \<Rightarrow> Some (Inl TypeError)
            | nearest # _ \<Rightarrow>
                nearest_neighbour_loop unvisited' (optimized @ [nearest])
                  \<lparr>latitude = latitude nearest, longitude = longitude nearest\<rparr>)
      else Some (Inr optimized))"

definition optimizeRoute ::
  "RouteStop list \<Rightarrow> Location option \<Rightarrow> (js_error + RouteStop list) option" where
  "optimizeRoute stops startLocation =
     (if length stops \<le> 1 then Some (Inr stops)
      else nearest_neighbour_loop stops []
             (case startLocation of
                Some l \<Rightarrow> l
              | None \<Rightarrow> \<lparr>latitude = latitude (stops ! 0), longitude = longitude (stops ! 0)\<rparr>))"

subsection \<open>Total distance of a route\<close>



subsection \<open>Auxiliary notions for stating the properties\<close>

text \<open>\<open>Number.isFinite\<close>, and a point both of whose coordinates are finite.\<close>

fun is_finite :: "jsnum \<Rightarrow> bool" where
  "is_finite (Fin x) = True"
| "is_finite _ = False"

definition finite_coords :: "'a Location_scheme \<Rightarrow> bool" where
  "finite_coords p = (is_finite (latitude p) \<and> is_finite (longitude p))"

text \<open>The distance the scan computes for a stop of the pool.\<close>

definition distance_to :: "Location \<Rightarrow> RouteStop \<Rightarrow> jsnum" where
  "distance_to currentLocation stop =
     calculateDistance (latitude currentLocation) (longitude currentLocation)
       (latitude stop) (longitude stop)"

text \<open>A stop with the given id and coordinates, for concrete examples.\<close>

definition stop_at :: "string \<Rightarrow> jsnum \<Rightarrow> jsnum \<Rightarrow> RouteStop" where
  "stop_at name la lo =
     \<lparr>latitude = la, longitude = lo, id' = name, routeId = ''route-1'', clientId = ''client'',
      clientName = name, clientSku = ''sku'', address = ''address'', stopOrder = Fin 0,
      optimizedOrder = None, status = pending, completedAt = None, notes' = None\<rparr>"

text \<open>
  The route as the sequence of its legs, following the specification's words: the sum runs
  over the consecutive pairs of the path that starts at the given point and visits the stops
  in order; JavaScript adds them from the left, starting from 0.
\<close>

definition location_of :: "RouteStop \<Rightarrow> Location" where
  "location_of stop = \<lparr>latitude = latitude stop, longitude = longitude stop\<rparr>"



subsection \<open>Navigation link\<close>

text \<open>
  \<open>Array.prototype.slice(start, end)\<close>: a negative index counts from the end of the array,
  and both indices are clamped to the array.
\<close>

definition slice :: "int \<Rightarrow> int \<Rightarrow> 'a list \<Rightarrow> 'a list" where
  "slice start finish xs =
     (let len = int (length xs);
          k = (if start < 0 then max (len + start) 0 else min start len);
          final = (if finish < 0 then max (len + finish) 0 else min finish len)
      in take (nat (final - k)) (drop (nat k) xs))"

text \<open>\<open>Array.prototype.join(separator)\<close> on an array of strings.\<close>

fun join :: "string \<Rightarrow> string list \<Rightarrow> string" where
  "join sep [] = ''''"
| "join sep [x] = x"
| "join sep (x # y # ys) = x @ sep @ join sep (y # ys)"

text \<open>
  The template literal \<open>`${p.latitude},${p.longitude}`\<close>. The conversion of a number to its
  decimal string is the JavaScript runtime's and is a parameter here.
\<close>

definition lat_lng :: "(jsnum \<Rightarrow> string) \<Rightarrow> 'a Location_scheme \<Rightarrow> string" where
  "lat_lng toString p = toString (latitude p) @ '','' @ toString (longitude p)"

definition generateGoogleMapsUrl ::
  "(jsnum \<Rightarrow> string) \<Rightarrow> RouteStop list \<Rightarrow> Location option \<Rightarrow> string" where
  "generateGoogleMapsUrl toString stops startLocation =
     (if length stops = 0 then ''''
      else
        (let origin = (case startLocation of
                         Some l \<Rightarrow> lat_lng toString l
                       | None \<Rightarrow> lat_lng toString (stops ! 0));
             destination = lat_lng toString (stops ! (length stops - 1));
             waypoints = join ''|''
                           (map (\<lambda>stop. lat_lng toString stop)
                              (slice 0 9 (slice (if startLocation \<noteq> None then 0 else 1) (- 1) stops)));
             url = ''https://www.google.com/maps/dir/?api=1&origin='' @ origin @
                   ''&destination='' @ destination @ ''&travelmode=driving''
         in if waypoints \<noteq> '''' then url @ ''&waypoints='' @ waypoints else url))"

section \<open>Directions service (services/directionsService.ts)\<close>

subsection \<open>Haversine distance in metres\<close>


subsection \<open>Decoding an encoded polyline\<close>

text \<open>
  A JavaScript string is the list of its UTF-16 code units. \<open>charCodeAt\<close> returns NaN,
  here \<open>None\<close>, for an index past the end.
\<close>

type_synonym js_string = "nat list"

definition charCodeAt :: "js_string \<Rightarrow> nat \<Rightarrow> int option" where
  "charCodeAt s index = (if index < length s then Some (int (s ! index)) else None)"

text \<open>\<open>ToInt32\<close> of an integral number or NaN, as the bitwise operators apply it.\<close>

definition ToInt32 :: "int option \<Rightarrow> 32 word" where
  "ToInt32 b = (case b of None \<Rightarrow> 0 | Some v \<Rightarrow> word_of_int v)"

text \<open>
  One \<open>do ... while (b >= 0x20)\<close> loop: \<open>b = encoded.charCodeAt(index++) - 63\<close>,
  \<open>result |= (b & 0x1f) << shift\<close>, \<open>shift += 5\<close>. The shift count of \<open><<\<close> is taken
  modulo 32 and \<open>result\<close> is a 32-bit integer; a comparison with NaN is false. The loop
  returns \<open>result\<close> and the new \<open>index\<close>.
\<close>

partial_function (option) read_chunks ::
  "js_string \<Rightarrow> nat \<Rightarrow> nat \<Rightarrow> 32 word \<Rightarrow> (32 word \<times> nat) option" where
  "read_chunks encoded index shift result =
     (let b = map_option (\<lambda>c. c - 63) (charCodeAt encoded index);
          index' = index + 1;
          result' = result OR push_bit (shift mod 32) (ToInt32 b AND 0x1f);
          shift' = shift + 5
      in if (case b of None \<Rightarrow> False | Some v \<Rightarrow> v \<ge> 0x20)
         then read_chunks encoded index' shift' result'
         else Some (result', index'))"

text \<open>\<open>(result & 1) !== 0 ? ~(result >> 1) : result >> 1\<close>, read as a signed number.\<close>

definition delta_of :: "32 word \<Rightarrow> int" where
  "delta_of result =
     sint (if result AND 1 \<noteq> 0 then NOT (signed_drop_bit 1 result) else signed_drop_bit 1 result)"

text \<open>
  The outer \<open>while (index < encoded.length)\<close> loop. The accumulators \<open>lat\<close> and \<open>lng\<close> hold
  integers (exactly, as long as they stay below \<open>2^53\<close> in absolute value).
\<close>

partial_function (option) decode_loop ::
  "js_string \<Rightarrow> nat \<Rightarrow> int \<Rightarrow> int \<Rightarrow> Location list \<Rightarrow> Location list option" where
  "decode_loop encoded index lat lng points =
     (if index < length encoded then
        Option.bind (read_chunks encoded index 0 0) (\<lambda>(result1, index1).
          let lat' = lat + delta_of result1 in
          Option.bind (read_chunks encoded index1 0 0) (\<lambda>(result2, index2).
            let lng' = lng + delta_of result2 in
            decode_loop encoded index2 lat' lng'
              (points @ [\<lparr>latitude = Fin (real_of_int lat' / 100000),
                           longitude = Fin (real_of_int lng' / 100000)\<rparr>])))
      else Some points)"

definition decodePolyline :: "js_string \<Rightarrow> Location list option" where
  "decodePolyline encoded = decode_loop encoded 0 0 0 []"

subsection \<open>The standard polyline encoding\<close>

text \<open>
  The encoder is not part of the repository. It is written here after the published
  algorithm that the specification names: a coordinate is multiplied by \<open>1e5\<close> and rounded;
  the difference to the previous point's value is shifted left by one bit and inverted when
  negative; the result is cut into 5-bit chunks from the low end, each chunk but the last is
  or-ed with \<open>0x20\<close>, and 63 is added to each to give a character. Latitude and longitude
  alternate, each with its own previous value, starting from 0.
\<close>

definition zigzag :: "int \<Rightarrow> nat" where
  "zigzag d = (if d < 0 then nat (- (2 * d) - 1) else nat (2 * d))"

fun encode_value :: "nat \<Rightarrow> nat list" where
  "encode_value v =
     (if v \<ge> 32 then (32 + v mod 32 + 63) # encode_value (v div 32) else [v + 63])"

fun encode_from :: "int \<times> int \<Rightarrow> (int \<times> int) list \<Rightarrow> js_string" where
  "encode_from (plat, plng) [] = []"
| "encode_from (plat, plng) ((lat, lng) # rest) =
     encode_value (zigzag (lat - plat)) @ encode_value (zigzag (lng - plng)) @
     encode_from (lat, lng) rest"

definition standard_polyline_encode :: "(real \<times> real) list \<Rightarrow> js_string" where
  "standard_polyline_encode pts =
     encode_from (0, 0) (map (\<lambda>(la, lo). (round (la * 100000), round (lo * 100000))) pts)"

text \<open>A point given in units of \<open>1e-5\<close> degrees, as a pair of coordinates and as a location.\<close>

definition e5_pair :: "int \<times> int \<Rightarrow> real \<times> real" where
  "e5_pair p = (real_of_int (fst p) / 100000, real_of_int (snd p) / 100000)"

definition e5_location :: "int \<times> int \<Rightarrow> Location" where
  "e5_location p =
     \<lparr>latitude = Fin (real_of_int (fst p) / 100000), longitude = Fin (real_of_int (snd p) / 100000)\<rparr>"

text \<open>The characters of an ASCII literal as a JavaScript string.\<close>

definition js_string_of :: "string \<Rightarrow> js_string" where
  "js_string_of cs = map of_char cs"

text \<open>
  The coordinates, in units of \<open>1e-5\<close> degrees, for which the differences between any two
  values (and from 0) stay within 31 bits after the left shift. Every latitude and longitude
  (at most 18000000 in absolute value) is in this range.
\<close>

definition in_range :: "int \<times> int \<Rightarrow> bool" where
  "in_range p = (\<bar>fst p\<bar> < 2 ^ 29 \<and> \<bar>snd p\<bar> < 2 ^ 29)"

declare encode_value.simps [simp del]

declare read_chunks.simps [code]

declare decode_loop.simps [code]

section \<open>Properties of the distance function\<close>






section \<open>The distance of finite points is a finite real\<close>






section \<open>The optimizer returns a permutation\<close>

lemma forEach_nearest_index:
  "fst (forEach_nearest cur xs k acc) = fst acc \<or>
   (k \<le> fst (forEach_nearest cur xs k acc) \<and> fst (forEach_nearest cur xs k acc) < k + length xs)"
proof (induction xs arbitrary: k acc)
  case Nil
  show ?case by simp
next
  case (Cons x xs)
  obtain ni nd where acc: "acc = (ni, nd)" by (cases acc)
  define d where "d = calculateDistance (latitude cur) (longitude cur) (latitude x) (longitude x)"
  show ?case
  proof (cases "d < nd")
    case True
    then have "forEach_nearest cur (x # xs) k acc = forEach_nearest cur xs (Suc k) (k, d)"
      by (simp add: acc d_def)
    then show ?thesis using Cons.IH [of "Suc k" "(k, d)"] by auto
  next
    case False
    then have "forEach_nearest cur (x # xs) k acc = forEach_nearest cur xs (Suc k) acc"
      by (simp add: acc d_def)
    then show ?thesis using Cons.IH [of "Suc k" acc] by auto
  qed
qed

lemma forEach_nearest_in_range:
  assumes "xs \<noteq> []"
  shows "fst (forEach_nearest cur xs 0 (0, PInf)) < length xs"
  using forEach_nearest_index [of cur xs 0 "(0, PInf)"] assms by auto

lemma splice_one:
  assumes "i < length xs"
  shows "splice i (Suc 0) xs = (take i xs @ drop (Suc i) xs, [xs ! i])"
  using assms by (simp add: splice_def take_Suc_conv_app_nth Cons_nth_drop_Suc [symmetric])

lemma nearest_neighbour_loop_step:
  assumes "unvisited \<noteq> []" "forEach_nearest cur unvisited 0 (0, PInf) = (i, d)"
  shows "nearest_neighbour_loop unvisited optimized cur =
         nearest_neighbour_loop (take i unvisited @ drop (Suc i) unvisited) (optimized @ [unvisited ! i])
           \<lparr>latitude = latitude (unvisited ! i), longitude = longitude (unvisited ! i)\<rparr>"
proof -
  have "i < length unvisited"
    using forEach_nearest_in_range [OF assms(1), of cur] assms(2) by simp
  then show ?thesis
    using assms
    by (subst nearest_neighbour_loop.simps) (simp add: splice_one)
qed

lemma nearest_neighbour_loop_Nil:
  "nearest_neighbour_loop [] optimized cur = Some (Inr optimized)"
  by (subst nearest_neighbour_loop.simps) simp

lemma mset_remove_nth:
  assumes "i < length xs"
  shows "mset (take i xs @ drop (Suc i) xs) + {#xs ! i#} = mset xs"
proof -
  have "xs = take i xs @ xs ! i # drop (Suc i) xs"
    using assms by (simp add: id_take_nth_drop)
  then have "mset xs = mset (take i xs @ xs ! i # drop (Suc i) xs)" by simp
  then show ?thesis by simp
qed

lemma nearest_neighbour_loop_total:
  "\<exists>out. nearest_neighbour_loop unvisited optimized cur = Some (Inr out) \<and>
         mset out = mset optimized + mset unvisited \<and>
         length out = length optimized + length unvisited"
proof (induction "length unvisited" arbitrary: unvisited optimized cur)
  case 0
  then show ?case by (simp add: nearest_neighbour_loop_Nil)
next
  case (Suc n)
  then have ne: "unvisited \<noteq> []" by auto
  obtain i d where sc: "forEach_nearest cur unvisited 0 (0, PInf) = (i, d)"
    by (cases "forEach_nearest cur unvisited 0 (0, PInf)")
  have i: "i < length unvisited"
    using forEach_nearest_in_range [OF ne, of cur] sc by simp
  let ?rest = "take i unvisited @ drop (Suc i) unvisited"
  have len: "n = length ?rest" using Suc.hyps(2) i by simp
  from Suc.hyps(1) [OF len, of "optimized @ [unvisited ! i]"
        "\<lparr>latitude = latitude (unvisited ! i), longitude = longitude (unvisited ! i)\<rparr>"]
  obtain out where out:
    "nearest_neighbour_loop ?rest (optimized @ [unvisited ! i])
       \<lparr>latitude = latitude (unvisited ! i), longitude = longitude (unvisited ! i)\<rparr> = Some (Inr out)"
    "mset out = mset (optimized @ [unvisited ! i]) + mset ?rest"
    "length out = length (optimized @ [unvisited ! i]) + length ?rest"
    by blast
  have "mset out = mset optimized + mset unvisited"
    using out(2) mset_remove_nth [OF i] by (simp add: ac_simps)
  moreover have "length out = length optimized + length unvisited"
    using out(3) len Suc.hyps(2) by simp
  ultimately show ?case
    using nearest_neighbour_loop_step [OF ne sc, of optimized] out(1) by simp
qed

text \<open>
  C1. For every list of stops and every optional start location \<open>optimizeRoute\<close> returns
  (the loop terminates and raises no error) a permutation of its input: same length, same
  multiset of stops and of stop ids. No assumption is made on the coordinates, so this
  covers pools whose distances are all NaN.
\<close>

theorem optimizeRoute_permutation:
  "\<exists>out. optimizeRoute stops startLocation = Some (Inr out) \<and>
         length out = length stops \<and> mset out = mset stops \<and>
         mset (map id' out) = mset (map id' stops)"
proof (cases "length stops \<le> 1")
  case True
  then show ?thesis by (simp add: optimizeRoute_def)
next
  case False
  obtain cur where cur: "optimizeRoute stops startLocation = nearest_neighbour_loop stops [] cur"
    using False by (simp add: optimizeRoute_def)
  from nearest_neighbour_loop_total [of stops "[]" cur]
  obtain out where "nearest_neighbour_loop stops [] cur = Some (Inr out)"
    "mset out = mset stops" "length out = length stops" by auto
  then show ?thesis using cur by (metis mset_map)
qed

section \<open>Each step takes the nearest remaining stop\<close>

lemma times_NaN_right [simp]: "z * NaN = (NaN :: jsnum)" by (cases z) simp_all
lemma plus_NaN_right [simp]: "z + NaN = (NaN :: jsnum)" by (cases z) simp_all

lemma sin_half_nonfinite:
  assumes "\<not> is_finite u \<or> \<not> is_finite v"
  shows "js_sin ((v - u) * Math_PI / Fin 180 / Fin 2) = NaN"
  using assms by (cases u; cases v) (simp_all add: Math_PI_def signed_inf_def)

lemma calculateDistance_nonfinite:
  assumes "\<not> (is_finite la1 \<and> is_finite lo1)"
  shows "calculateDistance la1 lo1 la2 lo2 = NaN"
proof (cases "is_finite la1")
  case False
  then have "js_sin ((la2 - la1) * Math_PI / Fin 180 / Fin 2) = NaN"
    by (simp add: sin_half_nonfinite)
  then show ?thesis by (simp add: calculateDistance_def Let_def)
next
  case True
  then have "\<not> is_finite lo1" using assms by simp
  then have "js_sin ((lo2 - lo1) * Math_PI / Fin 180 / Fin 2) = NaN"
    by (simp add: sin_half_nonfinite)
  then show ?thesis by (simp add: calculateDistance_def Let_def)
qed

lemma distance_to_nonfinite:
  "\<not> finite_coords cur \<Longrightarrow> distance_to cur s = NaN"
  by (simp add: distance_to_def finite_coords_def calculateDistance_nonfinite)


lemma forEach_nearest_Cons:
  "forEach_nearest cur (x # xs) k (ni, nd) =
     (if distance_to cur x < nd then forEach_nearest cur xs (Suc k) (k, distance_to cur x)
      else forEach_nearest cur xs (Suc k) (ni, nd))"
  by (simp add: distance_to_def Let_def)

lemma forEach_nearest_all_NaN:
  assumes "\<forall>s\<in>set xs. distance_to cur s = NaN"
  shows "forEach_nearest cur xs k acc = acc"
  using assms
proof (induction xs arbitrary: k)
  case Nil show ?case by simp
next
  case (Cons x xs)
  obtain ni nd where "acc = (ni, nd)" by (cases acc)
  then show ?case using Cons by (simp add: forEach_nearest_Cons del: forEach_nearest.simps)
qed








section \<open>A pool whose distances are all NaN\<close>

text \<open>
  Two stops with NaN coordinates: every comparison of the scan fails, index 0 is taken each
  time, and the input order is returned.
\<close>

theorem optimizeRoute_permutation_witness:
  "optimizeRoute [stop_at ''A'' NaN NaN, stop_at ''B'' NaN (Fin 2)] None =
     Some (Inr [stop_at ''A'' NaN NaN, stop_at ''B'' NaN (Fin 2)]) \<and>
   mset (map id' [stop_at ''A'' NaN NaN, stop_at ''B'' NaN (Fin 2)]) = {#''A'', ''B''#}"
proof -
  define A where "A = stop_at ''A'' NaN NaN"
  define B where "B = stop_at ''B'' NaN (Fin 2)"
  have nf: "\<not> finite_coords (location_of A)" "\<not> finite_coords (location_of B)"
    by (simp_all add: A_def B_def stop_at_def finite_coords_def location_of_def)
  have s1: "forEach_nearest (location_of A) [A, B] 0 (0, PInf) = (0, PInf)"
    by (intro forEach_nearest_all_NaN) (simp add: distance_to_nonfinite nf)
  have s2: "forEach_nearest (location_of A) [B] 0 (0, PInf) = (0, PInf)"
    by (intro forEach_nearest_all_NaN) (simp add: distance_to_nonfinite nf)
  have "nearest_neighbour_loop [A, B] [] (location_of A) = Some (Inr [A, B])"
    using nearest_neighbour_loop_step [OF _ s1, of "[]"] nearest_neighbour_loop_step [OF _ s2, of "[A]"]
    by (simp add: nearest_neighbour_loop_Nil location_of_def)
  then have run: "optimizeRoute [A, B] None = Some (Inr [A, B])"
    by (simp add: optimizeRoute_def location_of_def)
  from optimizeRoute_permutation [of "[A, B]" None]
  obtain out where "optimizeRoute [A, B] None = Some (Inr out)" "mset (map id' out) = mset (map id' [A, B])"
    by blast
  then have "mset (map id' [A, B]) = {#''A'', ''B''#}"
    by (simp add: A_def B_def stop_at_def)
  then show ?thesis using run unfolding A_def B_def by simp
qed

section \<open>The two haversine functions\<close>





section \<open>Total distance\<close>





section \<open>The navigation link\<close>

lemma nat_int_pred: "nat (int n - 1) = n - Suc 0"
  by arith

lemma slice_0_9: "slice 0 9 xs = take 9 xs"
  by (simp add: slice_def Let_def min_def)

lemma slice_0_m1: "slice 0 (- 1) xs = butlast xs"
  by (cases "xs = []") (simp_all add: slice_def Let_def butlast_conv_take nat_int_pred)

lemma slice_1_m1: "slice 1 (- 1) xs = butlast (tl xs)"
proof (cases xs)
  case Nil
  then show ?thesis by (simp add: slice_def)
next
  case (Cons x ys)
  then show ?thesis
    by (simp add: slice_def Let_def butlast_conv_take nat_int_pred)
qed

lemma lat_lng_nonempty: "lat_lng toString p \<noteq> ''''"
  by (simp add: lat_lng_def)

lemma join_nonempty:
  assumes "ws \<noteq> []" "\<forall>w\<in>set ws. w \<noteq> ''''"
  shows "join sep ws \<noteq> ''''"
proof (cases ws)
  case Nil
  then show ?thesis using assms by simp
next
  case (Cons w rest)
  then show ?thesis using assms by (cases rest) simp_all
qed

lemma join_empty_iff: "join ''|'' (map (lat_lng toString) ws) = '''' \<longleftrightarrow> ws = []"
proof
  assume "join ''|'' (map (lat_lng toString) ws) = ''''"
  then show "ws = []"
    using join_nonempty [of "map (lat_lng toString) ws" "''|''"] lat_lng_nonempty
    by auto
next
  assume "ws = []" then show "join ''|'' (map (lat_lng toString) ws) = ''''" by simp
qed

lemma middle_of_eleven:
  assumes "length stops = 11"
  shows "butlast (tl stops) =
         [stops ! 1, stops ! 2, stops ! 3, stops ! 4, stops ! 5, stops ! 6, stops ! 7, stops ! 8, stops ! 9]"
proof (rule nth_equalityI)
  show "length (butlast (tl stops)) = length [stops ! 1, stops ! 2, stops ! 3, stops ! 4, stops ! 5, stops ! 6, stops ! 7, stops ! 8, stops ! 9]"
    using assms by simp
next
  fix i assume "i < length (butlast (tl stops))"
  then have i: "i < 9" using assms by simp
  then have "butlast (tl stops) ! i = stops ! Suc i"
    using assms by (simp add: nth_butlast nth_tl)
  moreover have "i \<in> {0,1,2,3,4,5,6,7,8}" using i by auto
  ultimately show "butlast (tl stops) ! i =
     [stops ! 1, stops ! 2, stops ! 3, stops ! 4, stops ! 5, stops ! 6, stops ! 7, stops ! 8, stops ! 9] ! i"
    by (auto simp: eval_nat_numeral)
qed

text \<open>
  C3. \<open>generateGoogleMapsUrl\<close> returns the empty string for the empty list. For a non-empty
  list the URL has as origin the start location if given, else the first stop; as destination
  the last stop; and as waypoints the first 9 of the stops strictly between origin and
  destination (all stops but the last when a start is given, all but the first and the last
  otherwise), each written \<open>lat,lng\<close> and joined by \<open>|\<close>; the waypoints parameter is left out
  when there is none. With 11 stops and no start the waypoints are exactly the 9 stops at
  indices 1 to 9.
\<close>

theorem generateGoogleMapsUrl_shape:
  "generateGoogleMapsUrl toString [] startLocation = '''' \<and>
   (stops \<noteq> [] \<longrightarrow>
      generateGoogleMapsUrl toString stops startLocation =
        ''https://www.google.com/maps/dir/?api=1&origin='' @
        (case startLocation of Some l \<Rightarrow> lat_lng toString l | None \<Rightarrow> lat_lng toString (hd stops)) @
        ''&destination='' @ lat_lng toString (last stops) @ ''&travelmode=driving'' @
        (let between = butlast (case startLocation of Some l \<Rightarrow> stops | None \<Rightarrow> tl stops)
         in if between = [] then ''''
            else ''&waypoints='' @ join ''|'' (map (lat_lng toString) (take 9 between)))) \<and>
   (length stops = 11 \<longrightarrow>
      generateGoogleMapsUrl toString stops None =
        ''https://www.google.com/maps/dir/?api=1&origin='' @ lat_lng toString (stops ! 0) @
        ''&destination='' @ lat_lng toString (stops ! 10) @ ''&travelmode=driving'' @
        ''&waypoints='' @
        join ''|'' (map (lat_lng toString)
          [stops ! 1, stops ! 2, stops ! 3, stops ! 4, stops ! 5, stops ! 6, stops ! 7,
           stops ! 8, stops ! 9]))"
proof (intro conjI impI)
  show "generateGoogleMapsUrl toString [] startLocation = ''''"
    by (simp add: generateGoogleMapsUrl_def)
next
  assume ne: "stops \<noteq> []"
  then have l: "stops ! (length stops - Suc 0) = last stops" "stops ! 0 = hd stops"
    by (simp_all add: last_conv_nth hd_conv_nth)
  show "generateGoogleMapsUrl toString stops startLocation =
        ''https://www.google.com/maps/dir/?api=1&origin='' @
        (case startLocation of Some l \<Rightarrow> lat_lng toString l | None \<Rightarrow> lat_lng toString (hd stops)) @
        ''&destination='' @ lat_lng toString (last stops) @ ''&travelmode=driving'' @
        (let between = butlast (case startLocation of Some l \<Rightarrow> stops | None \<Rightarrow> tl stops)
         in if between = [] then ''''
            else ''&waypoints='' @ join ''|'' (map (lat_lng toString) (take 9 between)))"
    using ne
    by (cases startLocation)
      (simp_all add: generateGoogleMapsUrl_def Let_def l slice_0_9 slice_0_m1 slice_1_m1
        join_empty_iff)
next
  assume n: "length stops = 11"
  have m: "butlast (tl stops) =
      [stops ! 1, stops ! 2, stops ! 3, stops ! 4, stops ! 5, stops ! 6, stops ! 7, stops ! 8, stops ! 9]"
    using n by (rule middle_of_eleven)
  have t: "slice 0 9 (slice 1 (- 1) stops) =
      [stops ! 1, stops ! 2, stops ! 3, stops ! 4, stops ! 5, stops ! 6, stops ! 7, stops ! 8, stops ! 9]"
    unfolding slice_0_9 slice_1_m1 m by simp
  have j: "join ''|'' (map (lat_lng toString) (slice 0 9 (slice 1 (- 1) stops))) \<noteq> ''''"
    unfolding t by (simp add: lat_lng_nonempty)
  have "generateGoogleMapsUrl toString stops None =
        ''https://www.google.com/maps/dir/?api=1&origin='' @ lat_lng toString (stops ! 0) @
        ''&destination='' @ lat_lng toString (stops ! 10) @ ''&travelmode=driving'' @
        ''&waypoints='' @ join ''|'' (map (lat_lng toString) (slice 0 9 (slice 1 (- 1) stops)))"
    using n j by (simp add: generateGoogleMapsUrl_def Let_def)
  then show "generateGoogleMapsUrl toString stops None =
        ''https://www.google.com/maps/dir/?api=1&origin='' @ lat_lng toString (stops ! 0) @
        ''&destination='' @ lat_lng toString (stops ! 10) @ ''&travelmode=driving'' @
        ''&waypoints='' @
        join ''|'' (map (lat_lng toString)
          [stops ! 1, stops ! 2, stops ! 3, stops ! 4, stops ! 5, stops ! 6, stops ! 7,
           stops ! 8, stops ! 9])"
    unfolding t .
qed

section \<open>Worked examples\<close>

text \<open>
  Eleven stops and no start location: the origin is the first stop, the destination the last,
  and the nine stops between them are the waypoints.
\<close>

theorem generateGoogleMapsUrl_shape_witness:
  "length [stop_at ''first'' (Fin 0) (Fin 0),
      stop_at ''m1'' (Fin 1) (Fin 1), stop_at ''m2'' (Fin 1) (Fin 1), stop_at ''m3'' (Fin 1) (Fin 1),
      stop_at ''m4'' (Fin 1) (Fin 1), stop_at ''m5'' (Fin 1) (Fin 1), stop_at ''m6'' (Fin 1) (Fin 1),
      stop_at ''m7'' (Fin 1) (Fin 1), stop_at ''m8'' (Fin 1) (Fin 1), stop_at ''m9'' (Fin 1) (Fin 1),
      stop_at ''last'' (Fin 7) (Fin 7)] = 11 \<and>
   generateGoogleMapsUrl (\<lambda>x. if x = Fin 0 then ''0'' else if x = Fin 1 then ''1'' else ''7'')
     [stop_at ''first'' (Fin 0) (Fin 0),
      stop_at ''m1'' (Fin 1) (Fin 1), stop_at ''m2'' (Fin 1) (Fin 1), stop_at ''m3'' (Fin 1) (Fin 1),
      stop_at ''m4'' (Fin 1) (Fin 1), stop_at ''m5'' (Fin 1) (Fin 1), stop_at ''m6'' (Fin 1) (Fin 1),
      stop_at ''m7'' (Fin 1) (Fin 1), stop_at ''m8'' (Fin 1) (Fin 1), stop_at ''m9'' (Fin 1) (Fin 1),
      stop_at ''last'' (Fin 7) (Fin 7)] None =
   ''https://www.google.com/maps/dir/?api=1&origin=0,0&destination=7,7&travelmode=driving&waypoints=1,1|1,1|1,1|1,1|1,1|1,1|1,1|1,1|1,1''"
  using generateGoogleMapsUrl_shape
    [of "\<lambda>x. if x = Fin 0 then ''0'' else if x = Fin 1 then ''1'' else ''7''" None
      "[stop_at ''first'' (Fin 0) (Fin 0),
      stop_at ''m1'' (Fin 1) (Fin 1), stop_at ''m2'' (Fin 1) (Fin 1), stop_at ''m3'' (Fin 1) (Fin 1),
      stop_at ''m4'' (Fin 1) (Fin 1), stop_at ''m5'' (Fin 1) (Fin 1), stop_at ''m6'' (Fin 1) (Fin 1),
      stop_at ''m7'' (Fin 1) (Fin 1), stop_at ''m8'' (Fin 1) (Fin 1), stop_at ''m9'' (Fin 1) (Fin 1),
      stop_at ''last'' (Fin 7) (Fin 7)]"]
  by (simp add: lat_lng_def stop_at_def)



end
